theory Spec2Isabelle
  imports Main "HOL-Library.Word"
begin

chapter \<open>The model\<close>

section \<open>Strings and the JavaScript string operations the signer uses\<close>

text \<open>
  A JavaScript string is modelled by its UTF-8 bytes, one \<^typ>\<open>char\<close> per byte. The
  three characters the signer rewrites (slash, plus, equals) and the period are ASCII,
  and no byte of a multi-byte UTF-8 sequence is ASCII, so replacing them bytewise is
  what the source does on code units.
\<close>

text \<open>\<^verbatim>\<open>value.replace(/c/g, r)\<close> for a one-character pattern \<open>c\<close>.\<close>

definition replace_all :: "char \<Rightarrow> string \<Rightarrow> string \<Rightarrow> string" where
  "replace_all c r s = concat (map (\<lambda>x. if x = c then r else [x]) s)"

text \<open>
  \<^verbatim>\<open>value.replace(/c+$/, '')\<close>: the leftmost match of a run of \<open>c\<close> that reaches the
  end of the input is the whole trailing run, which is removed.
\<close>

definition strip_trailing :: "char \<Rightarrow> string \<Rightarrow> string" where
  "strip_trailing c s = rev (dropWhile (\<lambda>x. x = c) (rev s))"

section \<open>Base64 as the library computes it\<close>

definition base64_alphabet :: string where
  "base64_alphabet =
     ''ABCDEFGHIJKLMNOPQRSTUVWXYZabcdefghijklmnopqrstuvwxyz0123456789+/''"

definition base64url_alphabet :: string where
  "base64url_alphabet =
     ''ABCDEFGHIJKLMNOPQRSTUVWXYZabcdefghijklmnopqrstuvwxyz0123456789-_''"

definition sextet :: "nat \<Rightarrow> char" where
  "sextet n = base64_alphabet ! n"

text \<open>
  Standard base64 with padding (RFC 4648, section 4), the text that \<^verbatim>\<open>btoa\<close> returns
  and that the remote signing service puts into \<^verbatim>\<open>signedBlob\<close>.
\<close>

fun encodeBase64 :: "string \<Rightarrow> string" where
  "encodeBase64 (a # b # c # rest) =
     [sextet (of_char a div 4),
      sextet (of_char a mod 4 * 16 + of_char b div 16),
      sextet (of_char b mod 16 * 4 + of_char c div 64),
      sextet (of_char c mod 64)] @ encodeBase64 rest"
| "encodeBase64 [a, b] =
     [sextet (of_char a div 4),
      sextet (of_char a mod 4 * 16 + of_char b div 16),
      sextet (of_char b mod 16 * 4),
      CHR ''='']"
| "encodeBase64 [a] =
     [sextet (of_char a div 4),
      sextet (of_char a mod 4 * 16),
      CHR ''='', CHR ''='']"
| "encodeBase64 [] = []"

text \<open>
  \<^verbatim>\<open>base64url.encode\<close> of the jose library: the standard encoding of the UTF-8 bytes
  with every \<^verbatim>\<open>=\<close> removed, \<^verbatim>\<open>+\<close> turned into \<^verbatim>\<open>-\<close> and \<^verbatim>\<open>/\<close> into \<^verbatim>\<open>_\<close>.
\<close>

definition base64url_encode :: "string \<Rightarrow> string" where
  "base64url_encode input =
     replace_all (CHR ''/'') ''_''
       (replace_all (CHR ''+'') ''-''
         (replace_all (CHR ''='') '''' (encodeBase64 input)))"

text \<open>The value of a base64url digit: its position in the alphabet.\<close>

fun index_of :: "char \<Rightarrow> string \<Rightarrow> nat option" where
  "index_of c [] = None"
| "index_of c (x # xs) =
     (if x = c then Some 0 else map_option Suc (index_of c xs))"

definition sextet_value :: "char \<Rightarrow> nat option" where
  "sextet_value c = index_of c base64url_alphabet"

text \<open>
  \<^verbatim>\<open>base64url.decode\<close>: four digits give three bytes, a final group of three digits
  two bytes, of two digits one byte; a digit outside the alphabet or a single
  trailing digit is an error.
\<close>

fun base64url_decode :: "string \<Rightarrow> string option" where
  "base64url_decode (p # q # r # s # rest) =
     (case (sextet_value p, sextet_value q, sextet_value r, sextet_value s) of
        (Some x, Some y, Some z, Some w) \<Rightarrow>
          map_option
            (\<lambda>bs. char_of (x * 4 + y div 16) # char_of (y mod 16 * 16 + z div 4)
                   # char_of (z mod 4 * 64 + w) # bs)
            (base64url_decode rest)
      | _ \<Rightarrow> None)"
| "base64url_decode [p, q, r] =
     (case (sextet_value p, sextet_value q, sextet_value r) of
        (Some x, Some y, Some z) \<Rightarrow>
          Some [char_of (x * 4 + y div 16), char_of (y mod 16 * 16 + z div 4)]
      | _ \<Rightarrow> None)"
| "base64url_decode [p, q] =
     (case (sextet_value p, sextet_value q) of
        (Some x, Some y) \<Rightarrow> Some [char_of (x * 4 + y div 16)]
      | _ \<Rightarrow> None)"
| "base64url_decode [p] = None"
| "base64url_decode [] = Some []"

section \<open>src/auth/jwt/sign.ts: formatBase64\<close>

text \<open>
  \<^verbatim>\<open>value.replace(/\//g, '_').replace(/\+/g, '-').replace(/=+$/, '')\<close>
\<close>

definition formatBase64 :: "string \<Rightarrow> string" where
  "formatBase64 v =
     strip_trailing (CHR ''='')
       (replace_all (CHR ''+'') ''-'' (replace_all (CHR ''/'') ''_'' v))"


section \<open>JSON values and JSON.stringify\<close>

text \<open>
  The values the signer hands to \<^verbatim>\<open>JSON.stringify\<close>. An object is the list of its own
  properties in the order JavaScript enumerates them, with distinct keys. A number is
  an integer from \<open>- 2\<^sup>5\<^sup>3\<close> to \<open>2\<^sup>5\<^sup>3 - 1\<close>, held as a signed word of 54 bits: each of
  them is exactly one double, and JavaScript prints it in plain decimal. Fractions,
  larger numbers and the values that are no number are outside the type. \<open>JUndefined\<close>
  is the value of an optional property that was not given (\<^verbatim>\<open>kid: keyId\<close> with no
  \<^verbatim>\<open>keyId\<close>).
\<close>

datatype json =
    JUndefined
  | JNull
  | JBool bool
  | JNum "54 word"
  | JStr string
  | JArr "json list"
  | JObj "(string \<times> json) list"

definition hex_digit :: "nat \<Rightarrow> char" where
  "hex_digit n = ''0123456789abcdef'' ! n"

text \<open>
  One code unit inside a JSON string literal: the two-character escapes, \<^verbatim>\<open>\u00xx\<close>
  for the other control characters, everything else as it is.
\<close>

definition quote_char :: "char \<Rightarrow> string" where
  "quote_char c =
     (if c = CHR 0x08 then [CHR 0x5C, CHR ''b'']
      else if c = CHR 0x09 then [CHR 0x5C, CHR ''t'']
      else if c = CHR 0x0A then [CHR 0x5C, CHR ''n'']
      else if c = CHR 0x0C then [CHR 0x5C, CHR ''f'']
      else if c = CHR 0x0D then [CHR 0x5C, CHR ''r'']
      else if c = CHR 0x22 then [CHR 0x5C, CHR 0x22]
      else if c = CHR 0x5C then [CHR 0x5C, CHR 0x5C]
      else if (of_char c :: nat) < 32
        then [CHR 0x5C, CHR ''u'', CHR ''0'', CHR ''0'',
              hex_digit (of_char c div 16), hex_digit (of_char c mod 16)]
      else [c])"

definition QuoteJSONString :: "string \<Rightarrow> string" where
  "QuoteJSONString s = CHR 0x22 # concat (map quote_char s) @ [CHR 0x22]"

fun show_nat :: "nat \<Rightarrow> string" where
  "show_nat n =
     (if n < 10 then [''0123456789'' ! n]
      else show_nat (n div 10) @ [''0123456789'' ! (n mod 10)])"

declare show_nat.simps [simp del]

definition show_int :: "int \<Rightarrow> string" where
  "show_int i = (if i < 0 then CHR ''-'' # show_nat (nat (- i)) else show_nat (nat i))"

fun join :: "string \<Rightarrow> string list \<Rightarrow> string" where
  "join sep [] = []"
| "join sep [x] = x"
| "join sep (x # y # ys) = x @ sep @ join sep (y # ys)"

text \<open>
  \<^verbatim>\<open>JSON.stringify(value)\<close>; \<open>None\<close> is the result \<^verbatim>\<open>undefined\<close>. A property whose
  value serialises to \<^verbatim>\<open>undefined\<close> is left out of an object, and such an element of
  an array is written \<^verbatim>\<open>null\<close>.
\<close>

fun stringify :: "json \<Rightarrow> string option" where
  "stringify JUndefined = None"
| "stringify JNull = Some ''null''"
| "stringify (JBool b) = Some (if b then ''true'' else ''false'')"
| "stringify (JNum n) = Some (show_int (sint n))"
| "stringify (JStr s) = Some (QuoteJSONString s)"
| "stringify (JArr xs) =
     Some (''['' @ join '',''
        (map (\<lambda>x. case stringify x of None \<Rightarrow> ''null'' | Some t \<Rightarrow> t) xs) @ '']'')"
| "stringify (JObj ps) =
     Some (''{'' @ join '',''
        (concat (map (\<lambda>p. case stringify (snd p) of
                              None \<Rightarrow> []
                            | Some t \<Rightarrow> [QuoteJSONString (fst p) @ '':'' @ t]) ps)) @ ''}'')"

text \<open>\<^verbatim>\<open>JSON.stringify\<close> of an object, which always is a string.\<close>

definition stringify_object :: "(string \<times> json) list \<Rightarrow> string" where
  "stringify_object ps =
     ''{'' @ join '',''
        (concat (map (\<lambda>p. case stringify (snd p) of
                              None \<Rightarrow> []
                            | Some t \<Rightarrow> [QuoteJSONString (fst p) @ '':'' @ t]) ps)) @ ''}''"

section \<open>src/auth/jwt/sign.ts: the collaborators\<close>

text \<open>The one error code of \<^verbatim>\<open>AuthErrorCode\<close> that the signer uses.\<close>

datatype AuthErrorCode = INVALID_ARGUMENT

text \<open>
  How a remote call failed: the network call itself was rejected, or the endpoint
  answered with a non-success HTTP status.
\<close>

datatype failure = NetworkFailure string | HttpStatus nat

text \<open>
  What the signer can throw. \<open>Raised\<close> is an exception of the jose library that the
  signer lets through, named by its message; \<open>TypeError\<close> and \<open>SyntaxError\<close> are raised
  by the JavaScript runtime itself; \<open>AuthError\<close> is the error class of \<^verbatim>\<open>../error.js\<close>
  with the exception it was made from, its code and its message; \<open>RemoteSigningFailed\<close>
  is the failure of the remote call as the spec names it.
\<close>

datatype thrown =
    Raised string
  | TypeError
  | SyntaxError
  | AuthError string AuthErrorCode string
  | RemoteSigningFailed failure

text \<open>
  Modelled from the spec: \<^verbatim>\<open>AuthError.fromError\<close> lives in \<^verbatim>\<open>../error.js\<close>, which is not
  among the sources. The spec asks that the error carry the remediation hint; the
  model keeps the three arguments as they are given: the caught exception, the error
  code and the message.
\<close>

definition AuthError_fromError :: "string \<Rightarrow> AuthErrorCode \<Rightarrow> string \<Rightarrow> thrown" where
  "AuthError_fromError e code message = AuthError e code message"

text \<open>
  Modelled from the spec: \<^verbatim>\<open>ALGORITHM_RS256\<close> is imported from \<^verbatim>\<open>./verify.js\<close>, which is
  not among the sources. The spec names the single fixed algorithm RS256.
\<close>

definition ALGORITHM_RS256 :: string where
  "ALGORITHM_RS256 = ''RS256''"

text \<open>
  The two functions of the jose library that do cryptography are parameters of the
  model: \<open>importPKCS8 pem alg\<close> parses a PEM text into a key or throws, and
  \<open>sign_with alg key data\<close> computes the signature bytes of the signing input
  or throws.
\<close>

record 'k jose =
  importPKCS8 :: "string \<Rightarrow> string \<Rightarrow> string + 'k"
  sign_with :: "string \<Rightarrow> 'k \<Rightarrow> string \<Rightarrow> string + string"

text \<open>
  \<^verbatim>\<open>new SignJWT(payload).setProtectedHeader(header).sign(key)\<close>: the JWS compact
  serialisation of the library. Header and payload are written with
  \<^verbatim>\<open>JSON.stringify\<close> and encoded with the library's \<^verbatim>\<open>base64url\<close>; the signing input is
  the two segments joined by a period; the signature is encoded the same way and
  appended after a second period.
\<close>

definition SignJWT_sign ::
  "'k jose \<Rightarrow> (string \<times> json) list \<Rightarrow> (string \<times> json) list \<Rightarrow> string \<Rightarrow> 'k
     \<Rightarrow> thrown + string" where
  "SignJWT_sign lib payload protectedHeader alg key =
     (let data = base64url_encode (stringify_object protectedHeader) @ ''.''
                   @ base64url_encode (stringify_object payload)
      in case sign_with lib alg key data of
           Inl e \<Rightarrow> Inl (Raised e)
         | Inr signature \<Rightarrow> Inr (data @ ''.'' @ base64url_encode signature))"

text \<open>
  The network and the JSON parser of the runtime. \<open>fetch url init\<close> is the platform's
  \<^verbatim>\<open>fetch\<close>: it gives the response or rejects with a reason; \<open>blob_text\<close> is what
  \<^verbatim>\<open>(await response.blob()).text()\<close> reads. \<open>JSON_parse\<close> is \<^verbatim>\<open>JSON.parse\<close>; \<open>None\<close> is
  its SyntaxError.
\<close>

record RequestInit =
  http_method :: string
  headers :: "(string \<times> string) list"
  body :: string

record Response =
  status :: nat
  blob_text :: string

record platform =
  fetch :: "string \<Rightarrow> RequestInit \<Rightarrow> string + Response"
  JSON_parse :: "string \<Rightarrow> json option"

text \<open>\<^verbatim>\<open>response.ok\<close>: the status is in the range 200 to 299.\<close>

definition response_ok :: "Response \<Rightarrow> bool" where
  "response_ok r \<longleftrightarrow> 200 \<le> status r \<and> status r \<le> 299"

text \<open>
  Modelled from the spec: \<^verbatim>\<open>fetchAny\<close> is imported from \<^verbatim>\<open>../utils.js\<close>, which is not among
  the sources. Section 4.3 of the spec has a network or remote-service failure surface
  as RemoteSigningFailed with the underlying status. So the model of \<^verbatim>\<open>fetchAny\<close> performs
  the platform's \<^verbatim>\<open>fetch\<close> and raises RemoteSigningFailed when the call is rejected or
  the response has a non-success status, and returns the response otherwise.
\<close>

definition fetchAny :: "platform \<Rightarrow> string \<Rightarrow> RequestInit \<Rightarrow> thrown + Response" where
  "fetchAny env url init =
     (case fetch env url init of
        Inl reason \<Rightarrow> Inl (RemoteSigningFailed (NetworkFailure reason))
      | Inr response \<Rightarrow>
          if response_ok response then Inr response
          else Inl (RemoteSigningFailed (HttpStatus (status response))))"

section \<open>src/auth/jwt/sign.ts: sign\<close>

record SignOptions =
  payload :: "(string \<times> json) list"
  privateKey :: string
  keyId :: "string option"

definition private_key_hint :: string where
  "private_key_hint = ''It looks like the value provided for `serviceAccount.privateKey` is incorrectly formatted. Please double-check if private key has correct format. See https://github.com/awinogrodzki/next-firebase-auth-edge/issues/246#issuecomment-2321559620 for details''"

text \<open>The object literal \<^verbatim>\<open>{alg: ALGORITHM_RS256, kid: keyId}\<close>.\<close>

definition sign_header :: "string option \<Rightarrow> (string \<times> json) list" where
  "sign_header kid =
     [(''alg'', JStr ALGORITHM_RS256),
      (''kid'', case kid of None \<Rightarrow> JUndefined | Some k \<Rightarrow> JStr k)]"

definition sign :: "'k jose \<Rightarrow> SignOptions \<Rightarrow> thrown + string" where
  "sign lib opts =
     (case importPKCS8 lib (privateKey opts) ALGORITHM_RS256 of
        Inl e \<Rightarrow> Inl (AuthError_fromError e INVALID_ARGUMENT private_key_hint)
      | Inr key \<Rightarrow>
          SignJWT_sign lib (SignOptions.payload opts) (sign_header (keyId opts))
            ALGORITHM_RS256 key)"

section \<open>src/auth/jwt/sign.ts: encodeSegment and signBlob\<close>

record SignBlobOptions =
  serviceAccountId :: string
  accessToken :: string
  payload :: "(string \<times> json) list"

definition encodeSegment :: "(string \<times> json) list \<Rightarrow> string" where
  "encodeSegment segment = formatBase64 (base64url_encode (stringify_object segment))"

definition signBlob_url :: "SignBlobOptions \<Rightarrow> string" where
  "signBlob_url opts =
     ''https://iamcredentials.googleapis.com/v1/projects/-/serviceAccounts/''
       @ serviceAccountId opts @ '':signBlob''"

definition signBlob_header :: "(string \<times> json) list" where
  "signBlob_header = [(''alg'', JStr ALGORITHM_RS256), (''typ'', JStr ''JWT'')]"

definition signBlob_token :: "SignBlobOptions \<Rightarrow> string" where
  "signBlob_token opts =
     encodeSegment signBlob_header @ ''.'' @ encodeSegment (SignBlobOptions.payload opts)"

definition signBlob_request :: "SignBlobOptions \<Rightarrow> RequestInit" where
  "signBlob_request opts =
     \<lparr>http_method = ''POST'',
      headers = [(''Authorization'', ''Bearer '' @ accessToken opts)],
      body = stringify_object [(''payload'', JStr (base64url_encode (signBlob_token opts)))]\<rparr>"

text \<open>
  \<^verbatim>\<open>const {signedBlob} = JSON.parse(key)\<close>: destructuring \<^verbatim>\<open>null\<close> is a TypeError; an
  object gives its property or \<^verbatim>\<open>undefined\<close>; a string, number, boolean or array has
  no such property.
\<close>

fun destructure_signedBlob :: "json \<Rightarrow> thrown + json" where
  "destructure_signedBlob JNull = Inl TypeError"
| "destructure_signedBlob JUndefined = Inl TypeError"
| "destructure_signedBlob (JObj ps) =
     Inr (case map_of ps ''signedBlob'' of None \<Rightarrow> JUndefined | Some v \<Rightarrow> v)"
| "destructure_signedBlob _ = Inr JUndefined"

text \<open>
  The call \<^verbatim>\<open>formatBase64(signedBlob)\<close> on a parsed value: only a string has a
  callable \<^verbatim>\<open>replace\<close>; on anything else the call is a TypeError.
\<close>

fun formatBase64_of :: "json \<Rightarrow> thrown + string" where
  "formatBase64_of (JStr v) = Inr (formatBase64 v)"
| "formatBase64_of _ = Inl TypeError"

definition signBlob :: "platform \<Rightarrow> SignBlobOptions \<Rightarrow> thrown + string" where
  "signBlob env opts =
     (let token = signBlob_token opts
      in case fetchAny env (signBlob_url opts) (signBlob_request opts) of
           Inl e \<Rightarrow> Inl e
         | Inr response \<Rightarrow>
             (case JSON_parse env (blob_text response) of
                None \<Rightarrow> Inl SyntaxError
              | Some parsed \<Rightarrow>
                  (case destructure_signedBlob parsed of
                     Inl e \<Rightarrow> Inl e
                   | Inr signedBlob \<Rightarrow>
                       (case formatBase64_of signedBlob of
                          Inl e \<Rightarrow> Inl e
                        | Inr signature \<Rightarrow> Inr (token @ ''.'' @ signature)))))"

section \<open>Cookie expiration\<close>

text \<open>
  The sources hold the test of \<^verbatim>\<open>SingleCookieExpiration\<close> only, not the class. The
  cookie attributes are those the test passes: \<open>maxAge\<close> in seconds, \<open>expires\<close> a
  date in milliseconds since the epoch.
\<close>

datatype SameSite = SameSiteStrict | SameSiteLax | SameSiteNone

record CookieSerializeOptions =
  path :: string
  httpOnly :: bool
  secure :: bool
  sameSite :: SameSite
  maxAge :: "nat option"
  expires :: "int option"

record CookiePart =
  name :: string
  "value" :: string
  options :: CookieSerializeOptions

text \<open>
  Modelled from the spec: \<^verbatim>\<open>expire(sessionCookieNames, baseOptions)\<close> of section 4.6;
  the implementation is not among the sources. For each cookie name it emits a removal
  cookie whose options are the base options with \<open>expires\<close> set to the epoch start and
  \<open>maxAge\<close> stripped. The removal cookie's value is empty, as the test of the
  single-cookie case expects.
\<close>

definition expire :: "string list \<Rightarrow> CookieSerializeOptions \<Rightarrow> CookiePart list" where
  "expire sessionCookieNames baseOptions =
     map (\<lambda>n. \<lparr>name = n, value = [],
                options = baseOptions\<lparr>maxAge := None, expires := Some 0\<rparr>\<rparr>)
       sessionCookieNames"

section \<open>The error taxonomy of the specification\<close>

text \<open>
  Modelled from the spec: the error names of section 7 for the verifier, the key cache
  and the session codec; none of the three is among the sources.
\<close>

datatype core_error =
    MalformedToken | InvalidAlgorithm | UnknownKey | InvalidSignature
  | IssuerMismatch | AudienceMismatch | TokenExpired | TokenNotYetValid
  | KeyFetchFailed | IncompleteSession | CorruptSession

section \<open>Token verifier\<close>

text \<open>
  Modelled from the spec: what the verifier of section 4.2 is given. \<open>getKey\<close> is the
  key cache of section 4.1: it surfaces KeyFetchFailed, or answers NotFound (\<open>None\<close>)
  or with the key. \<open>verify_signature key data signature\<close> is the signature check with
  a public key, \<open>parse_json\<close> the JSON parser, \<open>now\<close> the clock in seconds and
  \<open>skewTolerance\<close> the fixed tolerance.
\<close>

record 'pk verifier =
  getKey :: "string \<Rightarrow> core_error + 'pk option"
  verify_signature :: "'pk \<Rightarrow> string \<Rightarrow> string \<Rightarrow> bool"
  parse_json :: "string \<Rightarrow> json option"
  now :: int
  skewTolerance :: int

fun split_on :: "char \<Rightarrow> string \<Rightarrow> string list" where
  "split_on c [] = [[]]"
| "split_on c (x # xs) =
     (if x = c then [] # split_on c xs
      else case split_on c xs of
             [] \<Rightarrow> [[x]]
           | y # ys \<Rightarrow> (x # y) # ys)"

text \<open>
  Modelled from the spec: steps 5 and 6 of section 4.2 on the decoded claims, which
  carry issuer, audience, expiry and notBefore under their JWT names. The issuer is
  matched exactly, the audience exactly or as a member of a list. The spec does not
  say what a token without a numeric expiry or notBefore is; the model rejects it as
  malformed.
\<close>

definition check_claims ::
  "'pk verifier \<Rightarrow> string \<Rightarrow> string \<Rightarrow> (string \<times> json) list
     \<Rightarrow> core_error + (string \<times> json) list" where
  "check_claims v expectedIssuer expectedAudience claims =
     (if map_of claims ''iss'' \<noteq> Some (JStr expectedIssuer) then Inl IssuerMismatch
      else if \<not> (case map_of claims ''aud'' of
                    Some (JStr a) \<Rightarrow> a = expectedAudience
                  | Some (JArr as) \<Rightarrow> JStr expectedAudience \<in> set as
                  | _ \<Rightarrow> False) then Inl AudienceMismatch
      else case (map_of claims ''nbf'', map_of claims ''exp'') of
             (Some (JNum notBefore), Some (JNum expiry)) \<Rightarrow>
               if sint expiry + skewTolerance v < now v then Inl TokenExpired
               else if now v < sint notBefore - skewTolerance v then Inl TokenNotYetValid
               else Inr claims
           | _ \<Rightarrow> Inl MalformedToken)"

text \<open>
  Modelled from the spec: \<^verbatim>\<open>verify(compactToken, expectedIssuer, expectedAudience)\<close>,
  the six steps of section 4.2 in order, stopping at the first failure. A header
  without a key id resolves to no key. The option \<^verbatim>\<open>checkRevoked\<close> of the contract
  occurs in none of the steps and is left out.
\<close>

definition verify ::
  "'pk verifier \<Rightarrow> string \<Rightarrow> string \<Rightarrow> string \<Rightarrow> core_error + (string \<times> json) list" where
  "verify v compactToken expectedIssuer expectedAudience =
     (case split_on (CHR ''.'') compactToken of
        [h, p, s] \<Rightarrow>
          (case (base64url_decode h, base64url_decode p, base64url_decode s) of
             (Some headerText, Some payloadText, Some signature) \<Rightarrow>
               (case parse_json v headerText of
                  Some (JObj header) \<Rightarrow>
                    if map_of header ''alg'' \<noteq> Some (JStr ALGORITHM_RS256)
                    then Inl InvalidAlgorithm
                    else (case map_of header ''kid'' of
                            Some (JStr kid) \<Rightarrow>
                              (case getKey v kid of
                                 Inl e \<Rightarrow> Inl e
                               | Inr None \<Rightarrow> Inl UnknownKey
                               | Inr (Some key) \<Rightarrow>
                                   if \<not> verify_signature v key (h @ ''.'' @ p) signature
                                   then Inl InvalidSignature
                                   else (case parse_json v payloadText of
                                           Some (JObj claims) \<Rightarrow>
                                             check_claims v expectedIssuer expectedAudience claims
                                         | _ \<Rightarrow> Inl MalformedToken))
                          | _ \<Rightarrow> Inl UnknownKey)
                | _ \<Rightarrow> Inl MalformedToken)
           | _ \<Rightarrow> Inl MalformedToken)
      | _ \<Rightarrow> Inl MalformedToken)"

section \<open>Auxiliary notions for the proofs\<close>

text \<open>The two character replacements of the signer as one function on characters.\<close>

definition url_char :: "char \<Rightarrow> char" where
  "url_char c =
     (if c = CHR ''/'' then CHR ''_'' else if c = CHR ''+'' then CHR ''-'' else c)"

definition url_sextet :: "nat \<Rightarrow> char" where
  "url_sextet n = base64url_alphabet ! n"

text \<open>The first segment of a compact token: everything before the first period.\<close>

definition header_segment :: "string \<Rightarrow> string" where
  "header_segment t = takeWhile (\<lambda>c. c \<noteq> CHR ''.'') t"

text \<open>A base64url segment: a string over the base64url alphabet.\<close>

definition is_base64url :: "string \<Rightarrow> bool" where
  "is_base64url s \<longleftrightarrow> list_all (\<lambda>c. c \<in> set base64url_alphabet) s"

section \<open>Example collaborators\<close>

text \<open>
  Concrete collaborators on which the theorems below are instantiated: a library that
  accepts one PEM text and signs everything with the bytes \<^verbatim>\<open>sig\<close>, and a signing
  service that answers every request with the standard base64 of the bytes
  \<^verbatim>\<open>73 69 67 fb ff\<close>.
\<close>

definition demo_jose :: "nat jose" where
  "demo_jose =
     \<lparr>importPKCS8 = (\<lambda>pem alg. if pem = ''PEM-1'' then Inr 1 else Inl ''not a PKCS8 key''),
      sign_with = (\<lambda>alg key data. Inr ''sig'')\<rparr>"

definition demo_sign_options :: SignOptions where
  "demo_sign_options =
     \<lparr>SignOptions.payload = [(''sub'', JStr ''u1'')], privateKey = ''PEM-1'',
      keyId = Some ''k1''\<rparr>"

definition demo_platform :: platform where
  \<open>demo_platform =
     \<lparr>fetch = (\<lambda>url init. Inr \<lparr>status = 200, blob_text = ''{"signedBlob":"c2ln+/8="}''\<rparr>),
      JSON_parse = (\<lambda>s. if s = ''{"signedBlob":"c2ln+/8="}''
                         then Some (JObj [(''signedBlob'', JStr ''c2ln+/8='')]) else None)\<rparr>\<close>

definition demo_blob_options :: SignBlobOptions where
  "demo_blob_options =
     \<lparr>serviceAccountId = ''svc@example'', accessToken = ''tok'',
      SignBlobOptions.payload = [(''sub'', JStr ''u1'')]\<rparr>"



text \<open>The options the test of the single-cookie expiration passes.\<close>

definition test_options :: CookieSerializeOptions where
  "test_options =
     \<lparr>path = ''/'', httpOnly = True, secure = True, sameSite = SameSiteLax,
      maxAge = Some (12 * 60 * 60 * 24), expires = Some (1727373870 * 1000)\<rparr>"

text \<open>
  Claims inside their validity window, the signing options that carry them, and a
  verifier that knows the public key 7 under the key id \<^verbatim>\<open>k1\<close>, accepts the signature
  bytes \<^verbatim>\<open>sig\<close> under it, and parses the four JSON texts that occur.
\<close>

definition demo_claims :: "(string \<times> json) list" where
  "demo_claims =
     [(''iss'', JStr ''issuer-1''), (''aud'', JStr ''app-1''), (''sub'', JStr ''u1''),
      (''nbf'', JNum 990), (''exp'', JNum 2000)]"

definition demo_verifier :: "nat verifier" where
  \<open>demo_verifier =
     \<lparr>getKey = (\<lambda>kid. Inr (if kid = ''k1'' then Some 7 else None)),
      verify_signature = (\<lambda>key data signature. key = 7 \<and> signature = ''sig''),
      parse_json = (\<lambda>t.
         if t = ''{"alg":"RS256","kid":"k1"}''
           then Some (JObj [(''alg'', JStr ''RS256''), (''kid'', JStr ''k1'')])
         else if t = ''{"alg":"RS256","typ":"JWT"}''
           then Some (JObj [(''alg'', JStr ''RS256''), (''typ'', JStr ''JWT'')])
         else if t = ''{"iss":"issuer-1","aud":"app-1","sub":"u1","nbf":990,"exp":2000}''
           then Some (JObj demo_claims)
         else if t = ''{"alg":"none"}'' then Some (JObj [(''alg'', JStr ''none'')])
         else None),
      now = 1000,
      skewTolerance = 5\<rparr>\<close>

definition demo_claims_options :: SignOptions where
  "demo_claims_options =
     \<lparr>SignOptions.payload = demo_claims, privateKey = ''PEM-1'', keyId = Some ''k1''\<rparr>"

text \<open>
  A library whose key parses but whose signing throws, a signing service that answers
  with the standard base64 of the bytes \<^verbatim>\<open>sig\<close>, and the options that hand the claims
  to \<^verbatim>\<open>signBlob\<close>.
\<close>

definition demo_unsigning_jose :: "nat jose" where
  "demo_unsigning_jose =
     \<lparr>importPKCS8 = (\<lambda>pem alg. if pem = ''PEM-1'' then Inr 1 else Inl ''not a PKCS8 key''),
      sign_with = (\<lambda>alg key data.
        Inl ''RS256 requires key modulusLength to be 2048 bits or larger'')\<rparr>"

definition demo_sig_platform :: platform where
  \<open>demo_sig_platform =
     \<lparr>fetch = (\<lambda>url init. Inr \<lparr>status = 200, blob_text = ''{"signedBlob":"c2ln"}''\<rparr>),
      JSON_parse = (\<lambda>s. if s = ''{"signedBlob":"c2ln"}''
                         then Some (JObj [(''signedBlob'', JStr ''c2ln'')]) else None)\<rparr>\<close>

definition demo_claims_blob_options :: SignBlobOptions where
  "demo_claims_blob_options =
     \<lparr>serviceAccountId = ''svc@example'', accessToken = ''tok'',
      SignBlobOptions.payload = demo_claims\<rparr>"

chapter \<open>Properties\<close>

section \<open>Base64: alphabets, the signer's rewriting, decoding\<close>

lemma replace_all_single: "replace_all c [d] s = map (\<lambda>x. if x = c then d else x) s"
  by (induction s) (simp_all add: replace_all_def)

lemma replace_all_empty: "replace_all c [] s = filter (\<lambda>x. x \<noteq> c) s"
  by (induction s) (simp_all add: replace_all_def)

lemma base64url_encode_map:
  "base64url_encode s = map url_char (filter (\<lambda>x. x \<noteq> CHR ''='') (encodeBase64 s))"
  by (simp add: base64url_encode_def replace_all_single replace_all_empty url_char_def
      cong: map_cong)

lemma formatBase64_map: "formatBase64 v = strip_trailing (CHR ''='') (map url_char v)"
proof -
  have "(if (if x = CHR ''/'' then CHR ''_'' else x) = CHR ''+'' then CHR ''-''
         else if x = CHR ''/'' then CHR ''_'' else x) = url_char x" for x
    by (simp add: url_char_def)
  then show ?thesis
    by (simp add: formatBase64_def replace_all_single o_def)
qed

lemma length_base64_alphabet: "length base64_alphabet = 64"
  by (simp add: base64_alphabet_def)

lemma length_base64url_alphabet: "length base64url_alphabet = 64"
  by (simp add: base64url_alphabet_def)

lemma base64url_alphabet_map: "base64url_alphabet = map url_char base64_alphabet"
  by (simp add: base64url_alphabet_def base64_alphabet_def url_char_def)

lemma eq_notin_base64_alphabet: "CHR ''='' \<notin> set base64_alphabet"
  by (simp add: base64_alphabet_def)

lemma distinct_base64url_alphabet: "distinct base64url_alphabet"
  by (simp add: base64url_alphabet_def)

lemma sextet_in: "n < 64 \<Longrightarrow> sextet n \<in> set base64_alphabet"
  by (simp add: sextet_def length_base64_alphabet)

lemma sextet_not_eq: "n < 64 \<Longrightarrow> sextet n \<noteq> CHR ''=''"
  using sextet_in eq_notin_base64_alphabet by metis

lemma url_char_sextet: "n < 64 \<Longrightarrow> url_char (sextet n) = base64url_alphabet ! n"
  by (simp add: sextet_def base64url_alphabet_map length_base64_alphabet)

lemma url_char_eq_iff: "url_char c = CHR ''='' \<longleftrightarrow> c = CHR ''=''"
  by (simp add: url_char_def)

lemma sextet_bounds:
  "(of_char a :: nat) div 4 < 64"
  "(of_char a :: nat) mod 4 * 16 + of_char b div 16 < 64"
  "(of_char b :: nat) mod 16 * 4 + of_char c div 64 < 64"
  "(of_char c :: nat) mod 64 < 64"
  "(of_char a :: nat) mod 4 * 16 < 64"
  "(of_char b :: nat) mod 16 * 4 < 64"
proof -
  have a: "(of_char a :: nat) < 256" and b: "(of_char b :: nat) < 256" and c: "(of_char c :: nat) < 256"
    by simp_all
  show "(of_char a :: nat) div 4 < 64" using a by arith
  show "(of_char a :: nat) mod 4 * 16 + of_char b div 16 < 64" using a b by arith
  show "(of_char b :: nat) mod 16 * 4 + of_char c div 64 < 64" using b c by arith
  show "(of_char c :: nat) mod 64 < 64" by arith
  show "(of_char a :: nat) mod 4 * 16 < 64" by arith
  show "(of_char b :: nat) mod 16 * 4 < 64" by arith
qed

lemma base64url_encode_simps:
  "base64url_encode (a # b # c # rest) =
     [url_sextet (of_char a div 4),
      url_sextet (of_char a mod 4 * 16 + of_char b div 16),
      url_sextet (of_char b mod 16 * 4 + of_char c div 64),
      url_sextet (of_char c mod 64)] @ base64url_encode rest"
  "base64url_encode [a, b] =
     [url_sextet (of_char a div 4),
      url_sextet (of_char a mod 4 * 16 + of_char b div 16),
      url_sextet (of_char b mod 16 * 4)]"
  "base64url_encode [a] =
     [url_sextet (of_char a div 4), url_sextet (of_char a mod 4 * 16)]"
  "base64url_encode [] = []"
  by (simp_all add: base64url_encode_map sextet_not_eq sextet_bounds url_char_sextet url_sextet_def)

lemma url_sextet_in: "n < 64 \<Longrightarrow> url_sextet n \<in> set base64url_alphabet"
  by (simp add: url_sextet_def length_base64url_alphabet)

lemma base64url_encode_alphabet: "set (base64url_encode s) \<subseteq> set base64url_alphabet"
  by (induction s rule: encodeBase64.induct)
     (simp_all add: base64url_encode_simps url_sextet_in sextet_bounds)

lemma strip_trailing_absent: "c \<notin> set s \<Longrightarrow> strip_trailing c s = s"
proof -
  assume "c \<notin> set s"
  then have "dropWhile (\<lambda>x. x = c) (rev s) = rev s"
    by (cases "rev s") (auto simp: dropWhile_eq_self_iff)
  then show ?thesis by (simp add: strip_trailing_def)
qed

lemma strip_trailing_append:
  "c \<notin> set xs \<Longrightarrow> strip_trailing c (xs @ ys) = xs @ strip_trailing c ys"
  using strip_trailing_absent [of c xs]
  by (auto simp: strip_trailing_def dropWhile_append)

lemma url_char_id: "c \<in> set base64url_alphabet \<Longrightarrow> url_char c = c"
  by (auto simp: base64url_alphabet_def url_char_def)

lemma formatBase64_id:
  assumes "set s \<subseteq> set base64url_alphabet"
  shows "formatBase64 s = s"
proof -
  have "map url_char s = s"
    using assms by (induction s) (simp_all add: url_char_id)
  moreover have "CHR ''='' \<notin> set s"
    using assms by (auto simp: base64url_alphabet_def)
  ultimately show ?thesis
    by (simp add: formatBase64_map strip_trailing_absent)
qed

lemma formatBase64_Cons:
  "c \<noteq> CHR ''='' \<Longrightarrow> formatBase64 (c # s) = url_char c # formatBase64 s"
proof -
  assume "c \<noteq> CHR ''=''"
  then have "CHR ''='' \<notin> set [url_char c]"
    by (simp add: url_char_def)
  from strip_trailing_append [OF this, of "map url_char s"] show ?thesis
    by (simp add: formatBase64_map)
qed

lemma formatBase64_pad:
  "formatBase64 [] = []" "formatBase64 ''=''  = []" "formatBase64 ''=='' = []"
  by (simp_all add: formatBase64_map strip_trailing_def url_char_def)

lemma formatBase64_encodeBase64: "formatBase64 (encodeBase64 s) = base64url_encode s"
  by (induction s rule: encodeBase64.induct)
     (simp_all add: base64url_encode_simps formatBase64_Cons formatBase64_pad
        sextet_not_eq sextet_bounds url_char_sextet url_sextet_def)

lemma index_of_nth: "distinct xs \<Longrightarrow> n < length xs \<Longrightarrow> index_of (xs ! n) xs = Some n"
proof (induction xs arbitrary: n)
  case Nil
  then show ?case by simp
next
  case (Cons x xs)
  then show ?case by (cases n) auto
qed

lemma sextet_value_url_sextet: "n < 64 \<Longrightarrow> sextet_value (url_sextet n) = Some n"
  by (simp add: sextet_value_def url_sextet_def index_of_nth distinct_base64url_alphabet
      length_base64url_alphabet)

lemma byte_recombine:
  fixes x y z :: nat
  assumes "x < 256" "y < 256" "z < 256"
  shows "x div 4 * 4 + (x mod 4 * 16 + y div 16) div 16 = x"
    and "(x mod 4 * 16 + y div 16) mod 16 * 16 + (y mod 16 * 4 + z div 64) div 4 = y"
    and "(y mod 16 * 4 + z div 64) mod 4 * 64 + z mod 64 = z"
    and "(x mod 4 * 16 + y div 16) mod 16 * 16 + (y mod 16 * 4) div 4 = y"
    and "x div 4 * 4 + (x mod 4 * 16) div 16 = x"
proof -
  have y16: "y div 16 div 16 = 0" and z4: "z div 64 div 4 = 0"
    using assms by (simp_all add: div_mult2_eq [symmetric])
  have ym: "y div 16 mod 16 = y div 16" and zm: "z div 64 mod 4 = z div 64"
    using assms by (simp_all add: less_mult_imp_div_less)
  show "x div 4 * 4 + (x mod 4 * 16 + y div 16) div 16 = x"
    using y16 by simp
  show "(x mod 4 * 16 + y div 16) mod 16 * 16 + (y mod 16 * 4 + z div 64) div 4 = y"
    using z4 ym by simp
  show "(y mod 16 * 4 + z div 64) mod 4 * 64 + z mod 64 = z"
    using zm by simp
  show "(x mod 4 * 16 + y div 16) mod 16 * 16 + (y mod 16 * 4) div 4 = y"
    using ym by simp
  show "x div 4 * 4 + (x mod 4 * 16) div 16 = x"
    by simp
qed

lemma char_recombine:
  fixes a b c :: char
  defines "x \<equiv> of_char a :: nat" and "y \<equiv> of_char b :: nat" and "z \<equiv> of_char c :: nat"
  shows "char_of (x div 4 * 4 + (x mod 4 * 16 + y div 16) div 16) = a"
    and "char_of ((x mod 4 * 16 + y div 16) mod 16 * 16 + (y mod 16 * 4 + z div 64) div 4) = b"
    and "char_of ((y mod 16 * 4 + z div 64) mod 4 * 64 + z mod 64) = c"
    and "char_of ((x mod 4 * 16 + y div 16) mod 16 * 16 + (y mod 16 * 4) div 4) = b"
    and "char_of (x div 4 * 4 + (x mod 4 * 16) div 16) = a"
proof -
  have lt: "x < 256" "y < 256" "z < 256"
    by (simp_all add: x_def y_def z_def)
  show "char_of (x div 4 * 4 + (x mod 4 * 16 + y div 16) div 16) = a"
    by (simp only: byte_recombine [OF lt]) (simp add: x_def)
  show "char_of ((x mod 4 * 16 + y div 16) mod 16 * 16 + (y mod 16 * 4 + z div 64) div 4) = b"
    by (simp only: byte_recombine [OF lt]) (simp add: y_def)
  show "char_of ((y mod 16 * 4 + z div 64) mod 4 * 64 + z mod 64) = c"
    by (simp only: byte_recombine [OF lt]) (simp add: z_def)
  show "char_of ((x mod 4 * 16 + y div 16) mod 16 * 16 + (y mod 16 * 4) div 4) = b"
    by (simp only: byte_recombine [OF lt]) (simp add: y_def)
  show "char_of (x div 4 * 4 + (x mod 4 * 16) div 16) = a"
    by (simp only: byte_recombine [OF lt]) (simp add: x_def)
qed

lemma sextet_value_encoded:
  "sextet_value (url_sextet (of_char a div 4)) = Some (of_char a div 4)"
  "sextet_value (url_sextet (of_char a mod 4 * 16 + of_char b div 16)) =
     Some (of_char a mod 4 * 16 + of_char b div 16)"
  "sextet_value (url_sextet (of_char b mod 16 * 4 + of_char c div 64)) =
     Some (of_char b mod 16 * 4 + of_char c div 64)"
  "sextet_value (url_sextet (of_char c mod 64)) = Some (of_char c mod 64)"
  "sextet_value (url_sextet (of_char a mod 4 * 16)) = Some (of_char a mod 4 * 16)"
  "sextet_value (url_sextet (of_char b mod 16 * 4)) = Some (of_char b mod 16 * 4)"
  by (rule sextet_value_url_sextet, rule sextet_bounds)+

lemma base64url_decode_encode: "base64url_decode (base64url_encode s) = Some s"
proof (induction s rule: encodeBase64.induct)
  case (1 a b c rest)
  then show ?case
    by (simp only: base64url_encode_simps append.simps base64url_decode.simps
        sextet_value_encoded prod.case option.case option.map char_recombine)
next
  case (2 a b)
  show ?case
    by (simp only: base64url_encode_simps base64url_decode.simps
        sextet_value_encoded prod.case option.case char_recombine)
next
  case (3 a)
  show ?case
    by (simp only: base64url_encode_simps base64url_decode.simps
        sextet_value_encoded prod.case option.case char_recombine)
next
  case 4
  show ?case
    by (simp only: base64url_encode_simps base64url_decode.simps)
qed

section \<open>Tokens: segments and headers\<close>

lemma stringify_JObj: "stringify (JObj ps) = Some (stringify_object ps)"
  by (simp add: stringify_object_def)

lemma is_base64url_encode: "is_base64url (base64url_encode s)"
  using base64url_encode_alphabet [of s] by (auto simp: is_base64url_def list_all_iff)

lemma encodeSegment_eq: "encodeSegment segment = base64url_encode (stringify_object segment)"
  by (simp add: encodeSegment_def formatBase64_id base64url_encode_alphabet)

lemma base64url_alphabet_free:
  "CHR ''.'' \<notin> set base64url_alphabet" "CHR ''='' \<notin> set base64url_alphabet"
  "CHR ''+'' \<notin> set base64url_alphabet" "CHR ''/'' \<notin> set base64url_alphabet"
  by (simp_all add: base64url_alphabet_def)

lemma base64url_encode_free:
  "CHR ''.'' \<notin> set (base64url_encode s)" "CHR ''='' \<notin> set (base64url_encode s)"
  "CHR ''+'' \<notin> set (base64url_encode s)" "CHR ''/'' \<notin> set (base64url_encode s)"
  using base64url_encode_alphabet [of s] base64url_alphabet_free by blast+

lemma split_on_nonempty: "split_on c s \<noteq> []"
  by (induction s) (auto split: list.splits)

lemma split_on_absent: "c \<notin> set a \<Longrightarrow> split_on c a = [a]"
  by (induction a) (auto split: list.splits)

lemma split_on_append: "c \<notin> set a \<Longrightarrow> split_on c (a @ c # rest) = a # split_on c rest"
  by (induction a) (auto split: list.splits simp: split_on_nonempty)

lemma header_segment_append: "CHR ''.'' \<notin> set a \<Longrightarrow> header_segment (a @ CHR ''.'' # rest) = a"
  by (induction a) (auto simp: header_segment_def)

lemma sign_result:
  assumes "sign lib so = Inr t"
  shows "\<exists>sg. t = encodeSegment (sign_header (keyId so)) @ ''.''
               @ encodeSegment (SignOptions.payload so) @ ''.'' @ base64url_encode sg"
  using assms
  by (auto simp: sign_def SignJWT_sign_def Let_def encodeSegment_eq split: sum.splits)

lemma signBlob_result:
  assumes "signBlob env bo = Inr t"
  shows "\<exists>s. t = signBlob_token bo @ ''.'' @ formatBase64 s"
proof -
  have "formatBase64_of v = Inr u \<Longrightarrow> \<exists>s. u = formatBase64 s" for v u
    by (cases v) auto
  with assms show ?thesis
    by (fastforce simp: signBlob_def Let_def split: sum.splits option.splits)
qed

lemma take2_split:
  assumes "CHR ''.'' \<notin> set a" "CHR ''.'' \<notin> set b"
  shows "take 2 (split_on (CHR ''.'') (a @ ''.'' @ b @ ''.'' @ r)) = [a, b]"
  using assms by (simp add: split_on_append)

lemma quote_keys:
  \<open>QuoteJSONString ''alg'' = ''"alg"''\<close>
  \<open>QuoteJSONString ''kid'' = ''"kid"''\<close>
  \<open>QuoteJSONString ''typ'' = ''"typ"''\<close>
  \<open>QuoteJSONString ''JWT'' = ''"JWT"''\<close>
  \<open>QuoteJSONString ''RS256'' = ''"RS256"''\<close>
  \<open>QuoteJSONString ''payload'' = ''"payload"''\<close>
  by (simp_all add: QuoteJSONString_def quote_char_def)

lemma stringify_signBlob_header:
  \<open>stringify_object signBlob_header = ''{"alg":"RS256","typ":"JWT"}''\<close>
  by (simp add: stringify_object_def signBlob_header_def ALGORITHM_RS256_def quote_keys)

lemma stringify_sign_header:
  \<open>stringify_object (sign_header kid) =
     ''{"alg":"RS256"'' @ (case kid of None \<Rightarrow> [] | Some k \<Rightarrow> '',"kid":'' @ QuoteJSONString k) @ ''}''\<close>
  by (cases kid) (simp_all add: stringify_object_def sign_header_def ALGORITHM_RS256_def quote_keys)

lemma quote_char_base64url: "c \<in> set base64url_alphabet \<Longrightarrow> quote_char c = [c]"
  by (auto simp: base64url_alphabet_def quote_char_def)

lemma QuoteJSONString_base64url:
  "QuoteJSONString (base64url_encode s) = CHR 0x22 # base64url_encode s @ [CHR 0x22]"
proof -
  have "set t \<subseteq> set base64url_alphabet \<Longrightarrow> concat (map quote_char t) = t" for t
    by (induction t) (simp_all add: quote_char_base64url)
  then show ?thesis
    by (simp add: QuoteJSONString_def base64url_encode_alphabet)
qed

lemma header_segment_sign:
  assumes "sign lib so = Inr t"
  shows "header_segment t = base64url_encode (stringify_object (sign_header (keyId so)))"
proof -
  from sign_result [OF assms] obtain sg where
    "t = encodeSegment (sign_header (keyId so)) @ ''.''
           @ encodeSegment (SignOptions.payload so) @ ''.'' @ base64url_encode sg" ..
  then show ?thesis
    using header_segment_append [of "encodeSegment (sign_header (keyId so))"]
    by (simp add: encodeSegment_eq base64url_encode_free)
qed

lemma header_segment_signBlob:
  assumes "signBlob env bo = Inr t"
  shows "header_segment t = base64url_encode (stringify_object signBlob_header)"
proof -
  from signBlob_result [OF assms] obtain s where
    "t = signBlob_token bo @ ''.'' @ formatBase64 s" ..
  then show ?thesis
    using header_segment_append [of "encodeSegment signBlob_header"]
    by (simp add: signBlob_token_def encodeSegment_eq base64url_encode_free)
qed

section \<open>The two signing paths encode alike\<close>

text \<open>
  Claim C1, amended. The segment encoding of \<^verbatim>\<open>signBlob\<close> (\<open>encodeSegment\<close>) is the
  encoding the library applies in \<^verbatim>\<open>sign\<close>: base64url of the JSON text, because
  \<open>formatBase64\<close> changes nothing in the library's output. Every segment is over the
  base64url alphabet, so it holds no padding, no plus and no slash, and it decodes back
  to the JSON text. In a token of either path the first two segments are the encoded
  header and the encoded payload. (That the tokens verify identically is not part of
  the amended claim; see the last section.)
\<close>

theorem encoding_rules_identical:
  assumes "sign lib so = Inr t1" and "signBlob env bo = Inr t2"
  shows "encodeSegment segment = base64url_encode (stringify_object segment)
    \<and> is_base64url (encodeSegment segment)
    \<and> CHR ''='' \<notin> set (encodeSegment segment)
    \<and> CHR ''+'' \<notin> set (encodeSegment segment)
    \<and> CHR ''/'' \<notin> set (encodeSegment segment)
    \<and> base64url_decode (encodeSegment segment) = Some (stringify_object segment)
    \<and> take 2 (split_on (CHR ''.'') t1) =
          [encodeSegment (sign_header (keyId so)), encodeSegment (SignOptions.payload so)]
    \<and> take 2 (split_on (CHR ''.'') t2) =
          [encodeSegment signBlob_header, encodeSegment (SignBlobOptions.payload bo)]"
proof -
  from sign_result [OF assms(1)] obtain sg where
    t1: "t1 = encodeSegment (sign_header (keyId so)) @ ''.''
           @ encodeSegment (SignOptions.payload so) @ ''.'' @ base64url_encode sg" ..
  from signBlob_result [OF assms(2)] obtain s where
    t2: "t2 = signBlob_token bo @ ''.'' @ formatBase64 s" ..
  have dot: "CHR ''.'' \<notin> set (encodeSegment x)" for x
    by (simp add: encodeSegment_eq base64url_encode_free)
  have "take 2 (split_on (CHR ''.'') t1) =
          [encodeSegment (sign_header (keyId so)), encodeSegment (SignOptions.payload so)]"
    unfolding t1 by (rule take2_split) (rule dot)+
  moreover have "take 2 (split_on (CHR ''.'') t2) =
          [encodeSegment signBlob_header, encodeSegment (SignBlobOptions.payload bo)]"
    using take2_split [OF dot dot, of signBlob_header "SignBlobOptions.payload bo" "formatBase64 s"]
    by (simp add: t2 signBlob_token_def)
  ultimately show ?thesis
    by (simp add: encodeSegment_eq is_base64url_encode base64url_encode_free
        base64url_decode_encode)
qed

theorem encoding_rules_identical_witness:
  \<open>sign demo_jose demo_sign_options =
      Inr ''eyJhbGciOiJSUzI1NiIsImtpZCI6ImsxIn0.eyJzdWIiOiJ1MSJ9.c2ln''
   \<and> signBlob demo_platform demo_blob_options =
      Inr ''eyJhbGciOiJSUzI1NiIsInR5cCI6IkpXVCJ9.eyJzdWIiOiJ1MSJ9.c2ln-_8''
   \<and> encodeSegment [(''sub'', JStr ''u1'')] = ''eyJzdWIiOiJ1MSJ9''
   \<and> base64url_decode ''eyJzdWIiOiJ1MSJ9'' = Some ''{"sub":"u1"}''
   \<and> take 2 (split_on (CHR ''.'') ''eyJhbGciOiJSUzI1NiIsImtpZCI6ImsxIn0.eyJzdWIiOiJ1MSJ9.c2ln'') =
        [''eyJhbGciOiJSUzI1NiIsImtpZCI6ImsxIn0'', ''eyJzdWIiOiJ1MSJ9'']
   \<and> take 2 (split_on (CHR ''.'') ''eyJhbGciOiJSUzI1NiIsInR5cCI6IkpXVCJ9.eyJzdWIiOiJ1MSJ9.c2ln-_8'') =
        [''eyJhbGciOiJSUzI1NiIsInR5cCI6IkpXVCJ9'', ''eyJzdWIiOiJ1MSJ9'']\<close>
proof -
  have s: \<open>sign demo_jose demo_sign_options =
      Inr ''eyJhbGciOiJSUzI1NiIsImtpZCI6ImsxIn0.eyJzdWIiOiJ1MSJ9.c2ln''\<close>
    by code_simp
  have b: \<open>signBlob demo_platform demo_blob_options =
      Inr ''eyJhbGciOiJSUzI1NiIsInR5cCI6IkpXVCJ9.eyJzdWIiOiJ1MSJ9.c2ln-_8''\<close>
    by code_simp
  have e: \<open>encodeSegment [(''sub'', JStr ''u1'')] = ''eyJzdWIiOiJ1MSJ9''\<close>
    by code_simp
  have h1: \<open>encodeSegment (sign_header (keyId demo_sign_options)) = ''eyJhbGciOiJSUzI1NiIsImtpZCI6ImsxIn0''\<close>
    by code_simp
  have h2: \<open>encodeSegment signBlob_header = ''eyJhbGciOiJSUzI1NiIsInR5cCI6IkpXVCJ9''\<close>
    by code_simp
  have st: \<open>stringify_object [(''sub'', JStr ''u1'')] = ''{"sub":"u1"}''\<close>
    by code_simp
  have p1: "SignOptions.payload demo_sign_options = [(''sub'', JStr ''u1'')]"
    by (simp add: demo_sign_options_def)
  have p2: "SignBlobOptions.payload demo_blob_options = [(''sub'', JStr ''u1'')]"
    by (simp add: demo_blob_options_def)
  note th = encoding_rules_identical [OF s b, of "[(''sub'', JStr ''u1'')]"]
  from th [unfolded p1 p2 h1 h2 e st] s b e show ?thesis
    by blast
qed

section \<open>sign: a private key that does not parse\<close>

text \<open>
  Claim C3. When the private key text cannot be parsed as a PKCS8 key, that is when
  \<^verbatim>\<open>importPKCS8\<close> throws, \<^verbatim>\<open>sign\<close> fails with the error the code builds for an invalid
  private key: an \<^verbatim>\<open>AuthError\<close> with code \<^verbatim>\<open>INVALID_ARGUMENT\<close> that keeps the library's
  exception and carries the remediation hint (the text that asks to check the format
  of \<^verbatim>\<open>serviceAccount.privateKey\<close> and points to the issue that explains it). No token
  is returned.
\<close>
theorem sign_invalid_private_key:
  assumes "importPKCS8 lib (privateKey so) ALGORITHM_RS256 = Inl e"
  shows "sign lib so = Inl (AuthError e INVALID_ARGUMENT private_key_hint)
    \<and> (\<forall>t. sign lib so \<noteq> Inr t)
    \<and> private_key_hint \<noteq> []"
  using assms by (simp add: sign_def AuthError_fromError_def private_key_hint_def)

theorem sign_invalid_private_key_witness:
  "importPKCS8 demo_jose ''garbage'' ALGORITHM_RS256 = Inl ''not a PKCS8 key''
   \<and> sign demo_jose (demo_sign_options\<lparr>privateKey := ''garbage''\<rparr>) =
       Inl (AuthError ''not a PKCS8 key'' INVALID_ARGUMENT private_key_hint)"
proof -
  have h: "importPKCS8 demo_jose (privateKey (demo_sign_options\<lparr>privateKey := ''garbage''\<rparr>))
             ALGORITHM_RS256 = Inl ''not a PKCS8 key''"
    by (simp add: demo_jose_def)
  from sign_invalid_private_key [OF h] h show ?thesis
    by simp
qed

section \<open>sign: the compact token\<close>

text \<open>
  Claim C4, amended. For every payload and every private key that parses, \<^verbatim>\<open>sign\<close>
  builds the header with \<^verbatim>\<open>alg\<close> and, exactly when a key id is configured, \<^verbatim>\<open>kid\<close>,
  encodes header and payload as base64url, and has the library sign the two segments
  joined by a period with the parsed key. When the library returns a signature,
  \<^verbatim>\<open>sign\<close> returns header, payload and encoded signature joined by periods: exactly
  three base64url segments, which decode to the header text, the payload text and the
  signature. When the library throws, its exception leaves \<^verbatim>\<open>sign\<close> and there is no
  token.
\<close>
theorem sign_builds_compact_token:
  assumes key: "importPKCS8 lib (privateKey so) ALGORITHM_RS256 = Inr key"
    and headerText: \<open>headerText =
          ''{"alg":"RS256"''
          @ (case keyId so of None \<Rightarrow> [] | Some k \<Rightarrow> '',"kid":'' @ QuoteJSONString k)
          @ ''}''\<close>
    and h: "h = base64url_encode headerText"
    and p: "p = base64url_encode (stringify_object (SignOptions.payload so))"
  shows "(sign_with lib ALGORITHM_RS256 key (h @ ''.'' @ p) = Inr sg \<longrightarrow>
            sign lib so = Inr (h @ ''.'' @ p @ ''.'' @ base64url_encode sg)
          \<and> split_on (CHR ''.'') (h @ ''.'' @ p @ ''.'' @ base64url_encode sg) =
              [h, p, base64url_encode sg]
          \<and> is_base64url h \<and> is_base64url p \<and> is_base64url (base64url_encode sg)
          \<and> base64url_decode h = Some headerText
          \<and> base64url_decode p = Some (stringify_object (SignOptions.payload so))
          \<and> base64url_decode (base64url_encode sg) = Some sg)
      \<and> (sign_with lib ALGORITHM_RS256 key (h @ ''.'' @ p) = Inl e \<longrightarrow>
            sign lib so = Inl (Raised e))"
proof -
  have hdr: "stringify_object (sign_header (keyId so)) = headerText"
    unfolding headerText by (rule stringify_sign_header)
  have "sign lib so = Inr (h @ ''.'' @ p @ ''.'' @ base64url_encode sg)"
    if "sign_with lib ALGORITHM_RS256 key (h @ ''.'' @ p) = Inr sg"
    using key that by (simp add: sign_def SignJWT_sign_def hdr h p)
  moreover have "sign lib so = Inl (Raised e)"
    if "sign_with lib ALGORITHM_RS256 key (h @ ''.'' @ p) = Inl e"
    using key that by (simp add: sign_def SignJWT_sign_def hdr h p)
  moreover have "split_on (CHR ''.'') (h @ ''.'' @ p @ ''.'' @ base64url_encode sg) =
              [h, p, base64url_encode sg]"
    by (simp add: h p split_on_append split_on_absent base64url_encode_free)
  ultimately show ?thesis
    by (simp add: h p is_base64url_encode base64url_decode_encode)
qed

theorem sign_builds_compact_token_witness:
  \<open>importPKCS8 demo_jose ''PEM-1'' ALGORITHM_RS256 = Inr 1
   \<and> sign demo_jose demo_sign_options =
       Inr ''eyJhbGciOiJSUzI1NiIsImtpZCI6ImsxIn0.eyJzdWIiOiJ1MSJ9.c2ln''
   \<and> split_on (CHR ''.'') ''eyJhbGciOiJSUzI1NiIsImtpZCI6ImsxIn0.eyJzdWIiOiJ1MSJ9.c2ln'' =
       [''eyJhbGciOiJSUzI1NiIsImtpZCI6ImsxIn0'', ''eyJzdWIiOiJ1MSJ9'', ''c2ln'']
   \<and> base64url_decode ''eyJhbGciOiJSUzI1NiIsImtpZCI6ImsxIn0'' = Some ''{"alg":"RS256","kid":"k1"}''
   \<and> base64url_decode ''eyJzdWIiOiJ1MSJ9'' = Some ''{"sub":"u1"}''
   \<and> base64url_decode ''c2ln'' = Some ''sig''\<close>
proof -
  have k: "importPKCS8 demo_jose (privateKey demo_sign_options) ALGORITHM_RS256 = Inr 1"
    by (simp add: demo_jose_def demo_sign_options_def)
  have t: \<open>''{"alg":"RS256","kid":"k1"}'' =
          ''{"alg":"RS256"''
          @ (case keyId demo_sign_options of None \<Rightarrow> []
             | Some k \<Rightarrow> '',"kid":'' @ QuoteJSONString k)
          @ ''}''\<close>
    by (simp add: demo_sign_options_def QuoteJSONString_def quote_char_def)
  have h: \<open>''eyJhbGciOiJSUzI1NiIsImtpZCI6ImsxIn0'' =
             base64url_encode ''{"alg":"RS256","kid":"k1"}''\<close>
    by code_simp
  have p: \<open>''eyJzdWIiOiJ1MSJ9'' =
             base64url_encode (stringify_object (SignOptions.payload demo_sign_options))\<close>
    by code_simp
  have st: \<open>stringify_object (SignOptions.payload demo_sign_options) = ''{"sub":"u1"}''\<close>
    by code_simp
  have sg: "sign_with demo_jose ALGORITHM_RS256 1
              (''eyJhbGciOiJSUzI1NiIsImtpZCI6ImsxIn0'' @ ''.'' @ ''eyJzdWIiOiJ1MSJ9'') = Inr ''sig''"
    by (simp add: demo_jose_def)
  have s: "base64url_encode ''sig'' = ''c2ln''"
    by code_simp
  have pk: "privateKey demo_sign_options = ''PEM-1''"
    by (simp add: demo_sign_options_def)
  note th = sign_builds_compact_token [OF k t h p, of "''sig''"]
  from th [unfolded s st pk] sg k [unfolded pk] show ?thesis
    by (simp only: append.simps simp_thms)
qed

text \<open>
  The claim as written promises a token for every key that parses and a \<^verbatim>\<open>kid\<close> in every
  header. A key that parses but with which the library refuses to sign gives no token,
  since the signing call is outside the \<^verbatim>\<open>try\<close>; and without a \<^verbatim>\<open>keyId\<close> the header that
  is emitted is \<^verbatim>\<open>{"alg":"RS256"}\<close>.
\<close>

theorem sign_without_token_counterexample:
  \<open>importPKCS8 demo_unsigning_jose (privateKey demo_sign_options) ALGORITHM_RS256 = Inr 1
   \<and> sign demo_unsigning_jose demo_sign_options =
       Inl (Raised ''RS256 requires key modulusLength to be 2048 bits or larger'')
   \<and> sign demo_jose (demo_sign_options\<lparr>keyId := None\<rparr>) =
       Inr ''eyJhbGciOiJSUzI1NiJ9.eyJzdWIiOiJ1MSJ9.c2ln''
   \<and> base64url_decode ''eyJhbGciOiJSUzI1NiJ9'' = Some ''{"alg":"RS256"}''\<close>
proof -
  have "importPKCS8 demo_unsigning_jose (privateKey demo_sign_options) ALGORITHM_RS256 = Inr 1"
    by (simp add: demo_unsigning_jose_def demo_sign_options_def)
  moreover have "sign demo_unsigning_jose demo_sign_options =
       Inl (Raised ''RS256 requires key modulusLength to be 2048 bits or larger'')"
    by code_simp
  moreover have "sign demo_jose (demo_sign_options\<lparr>keyId := None\<rparr>) =
       Inr ''eyJhbGciOiJSUzI1NiJ9.eyJzdWIiOiJ1MSJ9.c2ln''"
    by code_simp
  moreover have \<open>base64url_decode ''eyJhbGciOiJSUzI1NiJ9'' = Some ''{"alg":"RS256"}''\<close>
    by code_simp
  ultimately show ?thesis
    by blast
qed

section \<open>signBlob: the request and the token\<close>

text \<open>
  Claim C5. \<^verbatim>\<open>signBlob\<close> encodes header and payload as base64url, sends the unsigned
  segment (base64url-encoded once more, as the \<^verbatim>\<open>payload\<close> field of a JSON body) to the
  signing endpoint of the service account in an HTTP POST that carries the bearer
  credential, and returns the unsigned segment, a period, and the \<^verbatim>\<open>signedBlob\<close> of the
  JSON response rewritten by \<open>formatBase64\<close>, which turns standard base64 into
  base64url.
\<close>
theorem signBlob_sends_and_appends:
  assumes "fetch env (signBlob_url bo) (signBlob_request bo) = Inr r"
    and "response_ok r"
    and "JSON_parse env (blob_text r) = Some (JObj ps)"
    and "map_of ps ''signedBlob'' = Some (JStr signedBlob)"
    and "token = base64url_encode (stringify_object signBlob_header) @ ''.''
                  @ base64url_encode (stringify_object (SignBlobOptions.payload bo))"
  shows \<open>signBlob env bo = Inr (token @ ''.'' @ formatBase64 signedBlob)
    \<and> http_method (signBlob_request bo) = ''POST''
    \<and> headers (signBlob_request bo) = [(''Authorization'', ''Bearer '' @ accessToken bo)]
    \<and> body (signBlob_request bo) = ''{"payload":"'' @ base64url_encode token @ ''"}''
    \<and> base64url_decode (base64url_encode token) = Some token
    \<and> signBlob_url bo = ''https://iamcredentials.googleapis.com/v1/projects/-/serviceAccounts/''
          @ serviceAccountId bo @ '':signBlob''
    \<and> formatBase64 (encodeBase64 sg) = base64url_encode sg\<close>
proof -
  have tok: "signBlob_token bo = token"
    by (simp add: signBlob_token_def encodeSegment_eq assms(5))
  have "signBlob env bo = Inr (token @ ''.'' @ formatBase64 signedBlob)"
    using assms(1-4) by (simp add: signBlob_def fetchAny_def tok)
  moreover have \<open>body (signBlob_request bo) = ''{"payload":"'' @ base64url_encode token @ ''"}''\<close>
    by (simp add: signBlob_request_def tok stringify_object_def quote_keys
        QuoteJSONString_base64url)
  ultimately show ?thesis
    by (simp add: signBlob_request_def signBlob_url_def base64url_decode_encode
        formatBase64_encodeBase64)
qed

theorem signBlob_sends_and_appends_witness:
  \<open>fetch demo_platform (signBlob_url demo_blob_options) (signBlob_request demo_blob_options) =
      Inr \<lparr>status = 200, blob_text = ''{"signedBlob":"c2ln+/8="}''\<rparr>
   \<and> signBlob demo_platform demo_blob_options =
      Inr ''eyJhbGciOiJSUzI1NiIsInR5cCI6IkpXVCJ9.eyJzdWIiOiJ1MSJ9.c2ln-_8''
   \<and> http_method (signBlob_request demo_blob_options) = ''POST''
   \<and> headers (signBlob_request demo_blob_options) = [(''Authorization'', ''Bearer tok'')]\<close>
proof -
  have f: \<open>fetch demo_platform (signBlob_url demo_blob_options)
             (signBlob_request demo_blob_options) =
           Inr \<lparr>status = 200, blob_text = ''{"signedBlob":"c2ln+/8="}''\<rparr>\<close>
    by (simp add: demo_platform_def)
  have ok: \<open>response_ok \<lparr>status = 200, blob_text = ''{"signedBlob":"c2ln+/8="}''\<rparr>\<close>
    by (simp add: response_ok_def)
  have j: \<open>JSON_parse demo_platform
             (blob_text \<lparr>status = 200, blob_text = ''{"signedBlob":"c2ln+/8="}''\<rparr>) =
           Some (JObj [(''signedBlob'', JStr ''c2ln+/8='')])\<close>
    by (simp add: demo_platform_def)
  have m: "map_of [(''signedBlob'', JStr ''c2ln+/8='')] ''signedBlob'' = Some (JStr ''c2ln+/8='')"
    by simp
  have t: \<open>''eyJhbGciOiJSUzI1NiIsInR5cCI6IkpXVCJ9.eyJzdWIiOiJ1MSJ9'' =
             base64url_encode (stringify_object signBlob_header) @ ''.''
               @ base64url_encode (stringify_object (SignBlobOptions.payload demo_blob_options))\<close>
    by code_simp
  have s: "formatBase64 ''c2ln+/8='' = ''c2ln-_8''"
    by code_simp
  have a: "accessToken demo_blob_options = ''tok''"
    by (simp add: demo_blob_options_def)
  from signBlob_sends_and_appends [OF f ok j m t] f show ?thesis
    by (simp add: s a)
qed

text \<open>
  A response that \<^verbatim>\<open>fetchAny\<close> lets through but whose body is not JSON, or has no string
  \<^verbatim>\<open>signedBlob\<close>, makes \<^verbatim>\<open>signBlob\<close> throw while it reads the body.
\<close>

lemma signBlob_unreadable_body:
  assumes "fetchAny env (signBlob_url bo) (signBlob_request bo) = Inr r"
  shows "JSON_parse env (blob_text r) = None \<Longrightarrow> signBlob env bo = Inl SyntaxError"
    and "JSON_parse env (blob_text r) = Some parsed
         \<Longrightarrow> \<forall>s. destructure_signedBlob parsed \<noteq> Inr (JStr s)
         \<Longrightarrow> signBlob env bo = Inl TypeError"
proof -
  show "signBlob env bo = Inl SyntaxError" if "JSON_parse env (blob_text r) = None"
    using assms that by (simp add: signBlob_def)
  show "signBlob env bo = Inl TypeError"
    if p: "JSON_parse env (blob_text r) = Some parsed"
      and n: "\<forall>s. destructure_signedBlob parsed \<noteq> Inr (JStr s)"
  proof (cases "destructure_signedBlob parsed")
    case (Inl x)
    then have "x = TypeError"
      by (cases parsed) auto
    with assms p Inl show ?thesis
      by (simp add: signBlob_def)
  next
    case (Inr v)
    with n have "formatBase64_of v = Inl TypeError"
      by (cases v) auto
    with assms p Inr show ?thesis
      by (simp add: signBlob_def)
  qed
qed

section \<open>signBlob: failure of the remote call\<close>



section \<open>The header of each path\<close>

text \<open>
  Claim C10. The header of a token of \<^verbatim>\<open>signBlob\<close> is the JSON object with exactly the
  fields \<^verbatim>\<open>alg\<close> and \<^verbatim>\<open>typ\<close>, the latter \<^verbatim>\<open>JWT\<close>, and no \<^verbatim>\<open>kid\<close>. The header of a token
  of \<^verbatim>\<open>sign\<close> has \<^verbatim>\<open>alg\<close>, then the configured key id as \<^verbatim>\<open>kid\<close> if one was given, and
  no \<^verbatim>\<open>typ\<close>. So only the local-key path emits a key id.
\<close>
theorem header_fields_per_path:
  \<open>(signBlob env bo = Inr t \<longrightarrow>
      base64url_decode (header_segment t) = Some ''{"alg":"RS256","typ":"JWT"}'')
   \<and> map fst signBlob_header = [''alg'', ''typ'']
   \<and> (sign lib so = Inr t' \<longrightarrow>
      base64url_decode (header_segment t') =
        Some (''{"alg":"RS256"''
              @ (case keyId so of None \<Rightarrow> [] | Some k \<Rightarrow> '',"kid":'' @ QuoteJSONString k)
              @ ''}''))\<close>
proof -
  have \<open>base64url_decode (header_segment t) = Some ''{"alg":"RS256","typ":"JWT"}''\<close>
    if "signBlob env bo = Inr t"
    using header_segment_signBlob [OF that]
    by (simp add: base64url_decode_encode stringify_signBlob_header)
  moreover have \<open>base64url_decode (header_segment t') =
        Some (''{"alg":"RS256"''
              @ (case keyId so of None \<Rightarrow> [] | Some k \<Rightarrow> '',"kid":'' @ QuoteJSONString k)
              @ ''}'')\<close>
    if "sign lib so = Inr t'"
    using header_segment_sign [OF that]
    by (simp only: base64url_decode_encode stringify_sign_header)
  moreover have "map fst signBlob_header = [''alg'', ''typ'']"
    by (simp add: signBlob_header_def)
  ultimately show ?thesis
    by blast
qed

theorem header_fields_per_path_witness:
  \<open>signBlob demo_platform demo_blob_options =
      Inr ''eyJhbGciOiJSUzI1NiIsInR5cCI6IkpXVCJ9.eyJzdWIiOiJ1MSJ9.c2ln-_8''
   \<and> base64url_decode ''eyJhbGciOiJSUzI1NiIsInR5cCI6IkpXVCJ9'' = Some ''{"alg":"RS256","typ":"JWT"}''
   \<and> sign demo_jose demo_sign_options =
      Inr ''eyJhbGciOiJSUzI1NiIsImtpZCI6ImsxIn0.eyJzdWIiOiJ1MSJ9.c2ln''
   \<and> base64url_decode ''eyJhbGciOiJSUzI1NiIsImtpZCI6ImsxIn0'' = Some ''{"alg":"RS256","kid":"k1"}''\<close>
proof -
  have b: \<open>signBlob demo_platform demo_blob_options =
      Inr ''eyJhbGciOiJSUzI1NiIsInR5cCI6IkpXVCJ9.eyJzdWIiOiJ1MSJ9.c2ln-_8''\<close>
    by code_simp
  have s: \<open>sign demo_jose demo_sign_options =
      Inr ''eyJhbGciOiJSUzI1NiIsImtpZCI6ImsxIn0.eyJzdWIiOiJ1MSJ9.c2ln''\<close>
    by code_simp
  have hb: \<open>header_segment ''eyJhbGciOiJSUzI1NiIsInR5cCI6IkpXVCJ9.eyJzdWIiOiJ1MSJ9.c2ln-_8'' =
             ''eyJhbGciOiJSUzI1NiIsInR5cCI6IkpXVCJ9''\<close>
    by (simp add: header_segment_def)
  have hs: \<open>header_segment ''eyJhbGciOiJSUzI1NiIsImtpZCI6ImsxIn0.eyJzdWIiOiJ1MSJ9.c2ln'' =
             ''eyJhbGciOiJSUzI1NiIsImtpZCI6ImsxIn0''\<close>
    by (simp add: header_segment_def)
  have k: \<open>keyId demo_sign_options = Some ''k1''\<close>
    by (simp add: demo_sign_options_def)
  have q: \<open>QuoteJSONString ''k1'' = ''"k1"''\<close>
    by (simp add: QuoteJSONString_def quote_char_def)
  note th = header_fields_per_path [of demo_platform demo_blob_options
      \<open>''eyJhbGciOiJSUzI1NiIsInR5cCI6IkpXVCJ9.eyJzdWIiOiJ1MSJ9.c2ln-_8''\<close>
      demo_jose demo_sign_options
      \<open>''eyJhbGciOiJSUzI1NiIsImtpZCI6ImsxIn0.eyJzdWIiOiJ1MSJ9.c2ln''\<close>]
  from th [unfolded hb hs k q option.case append.simps] b s show ?thesis
    by blast
qed

section \<open>Cookie expiration\<close>

text \<open>The case the test in the sources checks.\<close>

lemma expire_single_cookie_test:
  "expire [''TestCookie''] test_options =
     [\<lparr>name = ''TestCookie'', value = [],
       options = \<lparr>path = ''/'', httpOnly = True, secure = True, sameSite = SameSiteLax,
                  maxAge = None, expires = Some 0\<rparr>\<rparr>]"
  by (simp add: expire_def test_options_def)

text \<open>
  Claim C7. For every list of session cookie names and every base options, \<open>expire\<close>
  emits exactly one removal cookie per name, in order (three for a session split three
  ways); each has \<open>expires\<close> at the epoch start and no \<open>maxAge\<close>, and keeps \<open>path\<close>,
  \<open>httpOnly\<close>, \<open>secure\<close> and \<open>sameSite\<close> of the base options.
\<close>
theorem expire_removes_each_cookie:
  "length (expire sessionCookieNames baseOptions) = length sessionCookieNames
   \<and> map name (expire sessionCookieNames baseOptions) = sessionCookieNames
   \<and> (\<forall>c \<in> set (expire sessionCookieNames baseOptions).
         expires (options c) = Some 0
       \<and> maxAge (options c) = None
       \<and> path (options c) = path baseOptions
       \<and> httpOnly (options c) = httpOnly baseOptions
       \<and> secure (options c) = secure baseOptions
       \<and> sameSite (options c) = sameSite baseOptions)"
  by (auto simp: expire_def comp_def)

theorem expire_removes_each_cookie_witness:
  "length (expire [''session.0'', ''session.1'', ''session.2''] test_options) = 3
   \<and> map name (expire [''session.0'', ''session.1'', ''session.2''] test_options) =
        [''session.0'', ''session.1'', ''session.2'']
   \<and> map (\<lambda>c. expires (options c))
         (expire [''session.0'', ''session.1'', ''session.2''] test_options) =
        [Some 0, Some 0, Some 0]
   \<and> map (\<lambda>c. maxAge (options c))
         (expire [''session.0'', ''session.1'', ''session.2''] test_options) =
        [None, None, None]
   \<and> map (\<lambda>c. (path (options c), httpOnly (options c), secure (options c), sameSite (options c)))
         (expire [''session.0'', ''session.1'', ''session.2''] test_options) =
        [(''/'', True, True, SameSiteLax), (''/'', True, True, SameSiteLax),
         (''/'', True, True, SameSiteLax)]"
proof -
  let ?parts = "expire [''session.0'', ''session.1'', ''session.2''] test_options"
  note th = expire_removes_each_cookie [of "[''session.0'', ''session.1'', ''session.2'']" test_options]
  from th have len: "length ?parts = 3"
    and names: "map name ?parts = [''session.0'', ''session.1'', ''session.2'']"
    by simp_all
  from len obtain a b c where parts: "?parts = [a, b, c]"
    by (auto simp: length_Suc_conv numeral_3_eq_3)
  from th have "\<forall>c \<in> set ?parts.
         expires (options c) = Some 0
       \<and> maxAge (options c) = None
       \<and> path (options c) = path test_options
       \<and> httpOnly (options c) = httpOnly test_options
       \<and> secure (options c) = secure test_options
       \<and> sameSite (options c) = sameSite test_options"
    by blast
  then have "map (\<lambda>c. expires (options c)) ?parts = [Some 0, Some 0, Some 0]"
    and "map (\<lambda>c. maxAge (options c)) ?parts = [None, None, None]"
    and "map (\<lambda>c. (path (options c), httpOnly (options c), secure (options c),
                    sameSite (options c))) ?parts =
        [(''/'', True, True, SameSiteLax), (''/'', True, True, SameSiteLax),
         (''/'', True, True, SameSiteLax)]"
    unfolding parts by (simp_all add: test_options_def)
  with len names show ?thesis
    by blast
qed

section \<open>Token verifier\<close>


lemma hd_split_on: "hd (split_on c t) = takeWhile (\<lambda>x. x \<noteq> c) t"
  by (induction t) (auto split: list.splits simp: split_on_nonempty)


lemma verify_rejects_algorithm:
  assumes "split_on (CHR ''.'') token = [h, p, s]"
    and "base64url_decode h = Some headerText"
    and "base64url_decode p = Some payloadText"
    and "base64url_decode s = Some signature"
    and "parse_json v headerText = Some (JObj header)"
    and "map_of header ''alg'' \<noteq> Some (JStr ALGORITHM_RS256)"
  shows "verify v token issuer audience = Inl InvalidAlgorithm"
  using assms by (simp add: verify_def)

lemma verify_accepted_header:
  assumes "verify v token issuer audience = Inr claims"
  shows "\<exists>headerText header.
           base64url_decode (header_segment token) = Some headerText
         \<and> parse_json v headerText = Some (JObj header)
         \<and> map_of header ''alg'' = Some (JStr ALGORITHM_RS256)"
proof -
  from assms obtain h p s where sp: "split_on (CHR ''.'') token = [h, p, s]"
    by (auto simp: verify_def split: list.splits)
  then have hs: "header_segment token = h"
    using hd_split_on [of "CHR ''.''" token] by (simp add: header_segment_def)
  from assms sp obtain headerText where d: "base64url_decode h = Some headerText"
    by (auto simp: verify_def split: option.splits)
  from assms sp d obtain header where hd: "parse_json v headerText = Some (JObj header)"
    by (auto simp: verify_def split: option.splits json.splits)
  from assms sp d hd have "map_of header ''alg'' = Some (JStr ALGORITHM_RS256)"
    by (auto simp: verify_def split: option.splits json.splits if_splits)
  with hs d hd show ?thesis by blast
qed




text \<open>
  Claim C6. The header of every token that \<^verbatim>\<open>sign\<close> or \<^verbatim>\<open>signBlob\<close> produces starts with
  the field \<^verbatim>\<open>alg\<close> set to RS256, the single fixed algorithm. The verifier accepts a
  token only if its header has that algorithm, and a well-formed token with any other
  algorithm is rejected as InvalidAlgorithm whatever its key id and signature are,
  that is before the signature is looked at.
\<close>
theorem algorithm_is_fixed:
  \<open>(sign lib so = Inr t \<longrightarrow>
      (\<exists>rest. base64url_decode (header_segment t) = Some (''{"alg":"RS256"'' @ rest)))
   \<and> (signBlob env bo = Inr t' \<longrightarrow>
      (\<exists>rest. base64url_decode (header_segment t') = Some (''{"alg":"RS256"'' @ rest)))
   \<and> (verify v token issuer audience = Inr claims \<longrightarrow>
      (\<exists>headerText header.
          base64url_decode (header_segment token) = Some headerText
        \<and> parse_json v headerText = Some (JObj header)
        \<and> map_of header ''alg'' = Some (JStr ''RS256'')))
   \<and> (split_on (CHR ''.'') token' = [h, p, s]
        \<and> base64url_decode h = Some headerText'
        \<and> base64url_decode p = Some payloadText'
        \<and> base64url_decode s = Some signature'
        \<and> parse_json v headerText' = Some (JObj header')
        \<and> map_of header' ''alg'' \<noteq> Some (JStr ''RS256'')
      \<longrightarrow> verify v token' issuer audience = Inl InvalidAlgorithm)\<close>
proof -
  have \<open>\<exists>rest. base64url_decode (header_segment t) = Some (''{"alg":"RS256"'' @ rest)\<close>
    if "sign lib so = Inr t"
    using header_segment_sign [OF that]
    by (simp only: base64url_decode_encode stringify_sign_header) blast
  moreover have \<open>\<exists>rest. base64url_decode (header_segment t') = Some (''{"alg":"RS256"'' @ rest)\<close>
    if "signBlob env bo = Inr t'"
    using header_segment_signBlob [OF that]
    by (simp add: base64url_decode_encode stringify_signBlob_header)
  moreover have \<open>\<exists>headerText header.
          base64url_decode (header_segment token) = Some headerText
        \<and> parse_json v headerText = Some (JObj header)
        \<and> map_of header ''alg'' = Some (JStr ''RS256'')\<close>
    if "verify v token issuer audience = Inr claims"
    using verify_accepted_header [OF that] by (simp add: ALGORITHM_RS256_def)
  moreover have "verify v token' issuer audience = Inl InvalidAlgorithm"
    if "split_on (CHR ''.'') token' = [h, p, s]"
      and "base64url_decode h = Some headerText'"
      and "base64url_decode p = Some payloadText'"
      and "base64url_decode s = Some signature'"
      and "parse_json v headerText' = Some (JObj header')"
      and "map_of header' ''alg'' \<noteq> Some (JStr ''RS256'')"
    using verify_rejects_algorithm [OF that(1-5)] that(6) by (simp add: ALGORITHM_RS256_def)
  ultimately show ?thesis
    by blast
qed

theorem algorithm_is_fixed_witness:
  \<open>sign demo_jose demo_sign_options =
      Inr ''eyJhbGciOiJSUzI1NiIsImtpZCI6ImsxIn0.eyJzdWIiOiJ1MSJ9.c2ln''
   \<and> (\<exists>rest. base64url_decode ''eyJhbGciOiJSUzI1NiIsImtpZCI6ImsxIn0'' =
         Some (''{"alg":"RS256"'' @ rest))
   \<and> signBlob demo_platform demo_blob_options =
      Inr ''eyJhbGciOiJSUzI1NiIsInR5cCI6IkpXVCJ9.eyJzdWIiOiJ1MSJ9.c2ln-_8''
   \<and> (\<exists>rest. base64url_decode ''eyJhbGciOiJSUzI1NiIsInR5cCI6IkpXVCJ9'' =
         Some (''{"alg":"RS256"'' @ rest))
   \<and> verify demo_verifier
        ''eyJhbGciOiJub25lIn0.eyJpc3MiOiJpc3N1ZXItMSIsImF1ZCI6ImFwcC0xIiwic3ViIjoidTEiLCJuYmYiOjk5MCwiZXhwIjoyMDAwfQ.c2ln''
        ''issuer-1'' ''app-1'' = Inl InvalidAlgorithm\<close>
proof -
  have sg: \<open>sign demo_jose demo_sign_options =
      Inr ''eyJhbGciOiJSUzI1NiIsImtpZCI6ImsxIn0.eyJzdWIiOiJ1MSJ9.c2ln''\<close>
    by code_simp
  have bl: \<open>signBlob demo_platform demo_blob_options =
      Inr ''eyJhbGciOiJSUzI1NiIsInR5cCI6IkpXVCJ9.eyJzdWIiOiJ1MSJ9.c2ln-_8''\<close>
    by code_simp
  have hs: \<open>header_segment ''eyJhbGciOiJSUzI1NiIsImtpZCI6ImsxIn0.eyJzdWIiOiJ1MSJ9.c2ln'' =
             ''eyJhbGciOiJSUzI1NiIsImtpZCI6ImsxIn0''\<close>
    by (simp add: header_segment_def)
  have hb: \<open>header_segment ''eyJhbGciOiJSUzI1NiIsInR5cCI6IkpXVCJ9.eyJzdWIiOiJ1MSJ9.c2ln-_8'' =
             ''eyJhbGciOiJSUzI1NiIsInR5cCI6IkpXVCJ9''\<close>
    by (simp add: header_segment_def)
  have sp: \<open>split_on (CHR ''.'')
      ''eyJhbGciOiJub25lIn0.eyJpc3MiOiJpc3N1ZXItMSIsImF1ZCI6ImFwcC0xIiwic3ViIjoidTEiLCJuYmYiOjk5MCwiZXhwIjoyMDAwfQ.c2ln'' =
      [''eyJhbGciOiJub25lIn0'',
       ''eyJpc3MiOiJpc3N1ZXItMSIsImF1ZCI6ImFwcC0xIiwic3ViIjoidTEiLCJuYmYiOjk5MCwiZXhwIjoyMDAwfQ'',
       ''c2ln'']\<close>
    by code_simp
  have d1: \<open>base64url_decode ''eyJhbGciOiJub25lIn0'' = Some ''{"alg":"none"}''\<close>
    by code_simp
  have d2: \<open>base64url_decode
      ''eyJpc3MiOiJpc3N1ZXItMSIsImF1ZCI6ImFwcC0xIiwic3ViIjoidTEiLCJuYmYiOjk5MCwiZXhwIjoyMDAwfQ'' =
      Some ''{"iss":"issuer-1","aud":"app-1","sub":"u1","nbf":990,"exp":2000}''\<close>
    by code_simp
  have d3: "base64url_decode ''c2ln'' = Some ''sig''"
    by code_simp
  have ph: \<open>parse_json demo_verifier ''{"alg":"none"}'' = Some (JObj [(''alg'', JStr ''none'')])\<close>
    by (simp add: demo_verifier_def)
  have na: "map_of [(''alg'', JStr ''none'')] ''alg'' \<noteq> Some (JStr ''RS256'')"
    by simp
  note th = algorithm_is_fixed [of demo_jose demo_sign_options
      \<open>''eyJhbGciOiJSUzI1NiIsImtpZCI6ImsxIn0.eyJzdWIiOiJ1MSJ9.c2ln''\<close>
      demo_platform demo_blob_options
      \<open>''eyJhbGciOiJSUzI1NiIsInR5cCI6IkpXVCJ9.eyJzdWIiOiJ1MSJ9.c2ln-_8''\<close>
      demo_verifier _ "''issuer-1''" "''app-1''" _
      \<open>''eyJhbGciOiJub25lIn0.eyJpc3MiOiJpc3N1ZXItMSIsImF1ZCI6ImFwcC0xIiwic3ViIjoidTEiLCJuYmYiOjk5MCwiZXhwIjoyMDAwfQ.c2ln''\<close>
      "''eyJhbGciOiJub25lIn0''"
      "''eyJpc3MiOiJpc3N1ZXItMSIsImF1ZCI6ImFwcC0xIiwic3ViIjoidTEiLCJuYmYiOjk5MCwiZXhwIjoyMDAwfQ''"
      "''c2ln''"
      \<open>''{"alg":"none"}''\<close>
      \<open>''{"iss":"issuer-1","aud":"app-1","sub":"u1","nbf":990,"exp":2000}''\<close>
      "''sig''"
      "[(''alg'', JStr ''none'')]"]
  from th [unfolded hs hb] sg bl sp d1 d2 d3 ph na show ?thesis
    by blast
qed

section \<open>Tokens of the two paths before the verifier\<close>

lemma verify_accepted_key_id:
  assumes "verify v token issuer audience = Inr claims"
  shows "\<exists>headerText header kid.
           base64url_decode (header_segment token) = Some headerText
         \<and> parse_json v headerText = Some (JObj header)
         \<and> map_of header ''kid'' = Some (JStr kid)"
proof -
  from assms obtain h p s where sp: "split_on (CHR ''.'') token = [h, p, s]"
    by (auto simp: verify_def split: list.splits)
  then have hs: "header_segment token = h"
    using hd_split_on [of "CHR ''.''" token] by (simp add: header_segment_def)
  from assms sp obtain headerText where d: "base64url_decode h = Some headerText"
    by (auto simp: verify_def split: option.splits)
  from assms sp d obtain header where hd: "parse_json v headerText = Some (JObj header)"
    by (auto simp: verify_def split: option.splits json.splits)
  from assms sp d hd obtain kid where "map_of header ''kid'' = Some (JStr kid)"
    by (auto simp: verify_def split: option.splits json.splits if_splits)
  with hs d hd show ?thesis by blast
qed

text \<open>
  A token of \<^verbatim>\<open>signBlob\<close> is never accepted by a verifier that reads its header as it
  was written: the header has no key id.
\<close>

lemma signBlob_token_not_accepted:
  assumes "signBlob env bo = Inr t"
    and \<open>parse_json v ''{"alg":"RS256","typ":"JWT"}'' =
          Some (JObj [(''alg'', JStr ''RS256''), (''typ'', JStr ''JWT'')])\<close>
  shows "verify v t issuer audience \<noteq> Inr claims"
proof
  assume "verify v t issuer audience = Inr claims"
  from verify_accepted_key_id [OF this] obtain headerText header kid where
    d: "base64url_decode (header_segment t) = Some headerText"
    and ph: "parse_json v headerText = Some (JObj header)"
    and kid: "map_of header ''kid'' = Some (JStr kid)"
    by blast
  from d have \<open>headerText = ''{"alg":"RS256","typ":"JWT"}''\<close>
    using header_segment_signBlob [OF assms(1)]
    by (simp add: base64url_decode_encode stringify_signBlob_header)
  with ph assms(2) have "header = [(''alg'', JStr ''RS256''), (''typ'', JStr ''JWT'')]"
    by simp
  with kid show False
    by simp
qed

text \<open>
  The last part of claim C1 as written, that tokens of either path verify identically,
  fails: for the same claims, key and signature bytes the verifier accepts the token of
  \<^verbatim>\<open>sign\<close> and answers UnknownKey for the token of \<^verbatim>\<open>signBlob\<close>.
\<close>

theorem tokens_verify_differently_counterexample:
  \<open>sign demo_jose demo_claims_options = Inr ''eyJhbGciOiJSUzI1NiIsImtpZCI6ImsxIn0.eyJpc3MiOiJpc3N1ZXItMSIsImF1ZCI6ImFwcC0xIiwic3ViIjoidTEiLCJuYmYiOjk5MCwiZXhwIjoyMDAwfQ.c2ln''
   \<and> verify demo_verifier ''eyJhbGciOiJSUzI1NiIsImtpZCI6ImsxIn0.eyJpc3MiOiJpc3N1ZXItMSIsImF1ZCI6ImFwcC0xIiwic3ViIjoidTEiLCJuYmYiOjk5MCwiZXhwIjoyMDAwfQ.c2ln'' ''issuer-1'' ''app-1'' = Inr demo_claims
   \<and> signBlob demo_sig_platform demo_claims_blob_options = Inr ''eyJhbGciOiJSUzI1NiIsInR5cCI6IkpXVCJ9.eyJpc3MiOiJpc3N1ZXItMSIsImF1ZCI6ImFwcC0xIiwic3ViIjoidTEiLCJuYmYiOjk5MCwiZXhwIjoyMDAwfQ.c2ln''
   \<and> verify demo_verifier ''eyJhbGciOiJSUzI1NiIsInR5cCI6IkpXVCJ9.eyJpc3MiOiJpc3N1ZXItMSIsImF1ZCI6ImFwcC0xIiwic3ViIjoidTEiLCJuYmYiOjk5MCwiZXhwIjoyMDAwfQ.c2ln'' ''issuer-1'' ''app-1'' = Inl UnknownKey\<close>
proof -
  have \<open>sign demo_jose demo_claims_options = Inr ''eyJhbGciOiJSUzI1NiIsImtpZCI6ImsxIn0.eyJpc3MiOiJpc3N1ZXItMSIsImF1ZCI6ImFwcC0xIiwic3ViIjoidTEiLCJuYmYiOjk5MCwiZXhwIjoyMDAwfQ.c2ln''\<close>
    by code_simp
  moreover have \<open>verify demo_verifier ''eyJhbGciOiJSUzI1NiIsImtpZCI6ImsxIn0.eyJpc3MiOiJpc3N1ZXItMSIsImF1ZCI6ImFwcC0xIiwic3ViIjoidTEiLCJuYmYiOjk5MCwiZXhwIjoyMDAwfQ.c2ln'' ''issuer-1'' ''app-1'' = Inr demo_claims\<close>
    by code_simp
  moreover have \<open>signBlob demo_sig_platform demo_claims_blob_options = Inr ''eyJhbGciOiJSUzI1NiIsInR5cCI6IkpXVCJ9.eyJpc3MiOiJpc3N1ZXItMSIsImF1ZCI6ImFwcC0xIiwic3ViIjoidTEiLCJuYmYiOjk5MCwiZXhwIjoyMDAwfQ.c2ln''\<close>
    by code_simp
  moreover have \<open>verify demo_verifier ''eyJhbGciOiJSUzI1NiIsInR5cCI6IkpXVCJ9.eyJpc3MiOiJpc3N1ZXItMSIsImF1ZCI6ImFwcC0xIiwic3ViIjoidTEiLCJuYmYiOjk5MCwiZXhwIjoyMDAwfQ.c2ln'' ''issuer-1'' ''app-1'' = Inl UnknownKey\<close>
    by code_simp
  ultimately show ?thesis
    by blast
qed

end
